theory Spec2Isabelle
  imports Complex_Main "HOL-Library.Multiset"
begin

section \<open>Job matcher: the scoring engine and the ranking pipeline\<close>

text \<open>
  A shallow embedding of \<^verbatim>\<open>job_matcher/core/models.py\<close> and
  \<^verbatim>\<open>job_matcher/core/matcher.py\<close>.

  Conventions of the embedding:
  \<^item> Python \<^verbatim>\<open>float\<close> and \<^verbatim>\<open>int\<close> scores are real numbers: the arithmetic is exact,
    rounding of binary floating point is not modelled.
  \<^item> The exceptions that the arithmetic raises are modelled: a division by zero, the
    conversion of an \<^verbatim>\<open>int\<close> beyond the range of \<^verbatim>\<open>float\<close>, and a quotient of two
    \<^verbatim>\<open>int\<close> beyond that range.
  \<^item> \<^verbatim>\<open>str\<close> is \<open>string\<close>, one \<open>char\<close> for each character, for the characters with
    code points below 256. White space, decimal digits and \<^verbatim>\<open>str.lower\<close> are those of
    Python on these characters; \<^verbatim>\<open>str.title\<close> is that of Python on ASCII strings.
  \<^item> A \<^verbatim>\<open>datetime\<close> is an integer count of microseconds since a fixed epoch (no time
    zone). \<^verbatim>\<open>datetime.now()\<close> is not a function of the program's inputs: every
    definition that reads the clock takes the reading as an argument \<open>now\<close>.
  \<^item> The order in which a Python set of strings is iterated is not a function of the
    program's inputs either: it changes with the hash seed of the process. Every
    definition that iterates over a set takes the iteration order of the process as an
    argument \<open>it\<close>.
  \<^item> \<^verbatim>\<open>JobMatcher\<close> holds one field, \<^verbatim>\<open>self.profile\<close>; its methods take the profile
    as an argument. A leading underscore of a method name is dropped.
  \<^item> A raised exception is a value \<open>Inl e\<close> of the result.
  \<^item> Record fields whose names occur in several classes carry the class as a prefix
    (\<open>job_location\<close>, \<open>profile_location\<close>, \<open>exp_location\<close>); the field
    \<^verbatim>\<open>keywords\<close> of a skill is \<open>skill_keywords\<close>.
\<close>

subsection \<open>Data model (models.py)\<close>

type_synonym datetime = int

datatype SkillLevel = BEGINNER | INTERMEDIATE | ADVANCED | EXPERT

datatype JobType =
  FULL_TIME | PART_TIME | CONTRACT | FREELANCE | INTERNSHIP | REMOTE | HYBRID | ON_SITE

record Skill =
  name :: string
  level :: SkillLevel
  years_experience :: real
  skill_keywords :: "string list"

record Experience =
  exp_title :: string
  exp_company :: string
  start_date :: datetime
  end_date :: "datetime option"
  exp_description :: string
  achievements :: "string list"
  skills_used :: "string list"
  exp_location :: string
  is_current :: bool

record Education =
  institution :: string
  degree :: string
  field_of_study :: string
  graduation_date :: "datetime option"
  gpa :: "real option"
  honors :: "string list"
  relevant_coursework :: "string list"

record UserProfile =
  profile_id :: string
  full_name :: string
  email :: string
  phone :: string
  profile_location :: string
  linkedin_url :: string
  github_url :: string
  portfolio_url :: string
  summary :: string
  skills :: "Skill list"
  experiences :: "Experience list"
  education :: "Education list"
  certifications :: "string list"
  languages :: "string list"
  desired_roles :: "string list"
  desired_locations :: "string list"
  min_salary :: "int option"
  max_commute_minutes :: "int option"
  remote_preference :: string

record Job =
  job_id :: string
  job_title :: string
  job_company :: string
  job_location :: string
  job_description :: string
  requirements :: "string list"
  required_skills :: "string list"
  preferred_skills :: "string list"
  salary_min :: "int option"
  salary_max :: "int option"
  job_type :: JobType
  remote_option :: bool
  posted_date :: "datetime option"
  application_deadline :: "datetime option"
  source :: string
  source_url :: string
  company_size :: string
  industry :: string
  experience_level :: string
  benefits :: "string list"

record MatchScore =
  overall_score :: real
  skill_match_score :: real
  experience_match_score :: real
  education_match_score :: real
  location_match_score :: real
  salary_match_score :: real
  culture_fit_score :: real
  hiring_likelihood :: real
  compensation_score :: real
  matched_skills :: "string list"
  missing_skills :: "string list"
  bonus_skills :: "string list"

text \<open>The dataclass defaults. The identifiers are fresh UUIDs in the source; the scoring
  engine never reads them, and the defaults below take them as an argument.\<close>

definition Skill_init :: "string \<Rightarrow> Skill" where
  "Skill_init n = \<lparr>name = n, level = INTERMEDIATE, years_experience = 0, skill_keywords = []\<rparr>"

definition UserProfile_init :: "string \<Rightarrow> UserProfile" where
  "UserProfile_init uid =
     \<lparr>profile_id = uid, full_name = [], email = [], phone = [], profile_location = [],
      linkedin_url = [], github_url = [], portfolio_url = [], summary = [], skills = [],
      experiences = [], education = [], certifications = [], languages = [],
      desired_roles = [], desired_locations = [], min_salary = None,
      max_commute_minutes = None, remote_preference = ''flexible''\<rparr>"

definition Job_init :: "string \<Rightarrow> Job" where
  "Job_init uid =
     \<lparr>job_id = uid, job_title = [], job_company = [], job_location = [],
      job_description = [], requirements = [], required_skills = [],
      preferred_skills = [], salary_min = None, salary_max = None, job_type = FULL_TIME,
      remote_option = False, posted_date = None, application_deadline = None,
      source = [], source_url = [], company_size = [], industry = [],
      experience_level = [], benefits = []\<rparr>"

definition MatchScore_init :: MatchScore where
  "MatchScore_init =
     \<lparr>overall_score = 0, skill_match_score = 0, experience_match_score = 0,
      education_match_score = 0, location_match_score = 0, salary_match_score = 0,
      culture_fit_score = 0, hiring_likelihood = 0, compensation_score = 0,
      matched_skills = [], missing_skills = [], bonus_skills = []\<rparr>"

text \<open>\<^verbatim>\<open>Experience.duration_years\<close>: \<^verbatim>\<open>(end - start).days / 365.25\<close> with
  \<^verbatim>\<open>end = self.end_date or datetime.now()\<close>. The \<^verbatim>\<open>days\<close> of a \<^verbatim>\<open>timedelta\<close> are
  the difference divided by one day and rounded down (also when it is negative).\<close>

definition timedelta_days :: "datetime \<Rightarrow> datetime \<Rightarrow> int" where
  "timedelta_days e s = (e - s) div 86400000000"

definition duration_years :: "datetime \<Rightarrow> Experience \<Rightarrow> real" where
  "duration_years now e =
     (let en = (case end_date e of None \<Rightarrow> now | Some d \<Rightarrow> d)
      in real_of_int (timedelta_days en (start_date e)) / 365.25)"

definition total_experience_years :: "datetime \<Rightarrow> UserProfile \<Rightarrow> real" where
  "total_experience_years now p = sum_list (map (duration_years now) (experiences p))"

subsection \<open>Python strings\<close>

text \<open>\<^verbatim>\<open>str.lower\<close> on one character: the letters A to Z, and the letters with code
  points 0xC0 to 0xDE except the multiplication sign 0xD7, move up by 32.\<close>

definition upper_latin1 :: string where
  "upper_latin1 =
     [CHR 0xC0, CHR 0xC1, CHR 0xC2, CHR 0xC3, CHR 0xC4, CHR 0xC5, CHR 0xC6, CHR 0xC7,
      CHR 0xC8, CHR 0xC9, CHR 0xCA, CHR 0xCB, CHR 0xCC, CHR 0xCD, CHR 0xCE, CHR 0xCF,
      CHR 0xD0, CHR 0xD1, CHR 0xD2, CHR 0xD3, CHR 0xD4, CHR 0xD5, CHR 0xD6, CHR 0xD8,
      CHR 0xD9, CHR 0xDA, CHR 0xDB, CHR 0xDC, CHR 0xDD, CHR 0xDE]"

definition lower_latin1 :: string where
  "lower_latin1 =
     [CHR 0xE0, CHR 0xE1, CHR 0xE2, CHR 0xE3, CHR 0xE4, CHR 0xE5, CHR 0xE6, CHR 0xE7,
      CHR 0xE8, CHR 0xE9, CHR 0xEA, CHR 0xEB, CHR 0xEC, CHR 0xED, CHR 0xEE, CHR 0xEF,
      CHR 0xF0, CHR 0xF1, CHR 0xF2, CHR 0xF3, CHR 0xF4, CHR 0xF5, CHR 0xF6, CHR 0xF8,
      CHR 0xF9, CHR 0xFA, CHR 0xFB, CHR 0xFC, CHR 0xFD, CHR 0xFE]"

definition lower_char :: "char \<Rightarrow> char" where
  "lower_char c =
     (case map_of (zip (''ABCDEFGHIJKLMNOPQRSTUVWXYZ'' @ upper_latin1)
                       (''abcdefghijklmnopqrstuvwxyz'' @ lower_latin1)) c of
        None \<Rightarrow> c | Some d \<Rightarrow> d)"

definition upper_char :: "char \<Rightarrow> char" where
  "upper_char c =
     (case map_of (zip ''abcdefghijklmnopqrstuvwxyz'' ''ABCDEFGHIJKLMNOPQRSTUVWXYZ'') c of
        None \<Rightarrow> c | Some d \<Rightarrow> d)"

definition is_alpha :: "char \<Rightarrow> bool" where
  "is_alpha c \<longleftrightarrow>
     c \<in> set ''abcdefghijklmnopqrstuvwxyzABCDEFGHIJKLMNOPQRSTUVWXYZ''"

definition is_digit :: "char \<Rightarrow> bool" where
  "is_digit c \<longleftrightarrow> c \<in> set ''0123456789''"

text \<open>The characters below 256 for which \<^verbatim>\<open>str.isspace\<close> holds (and which \<^verbatim>\<open>\s\<close>
  matches): tab, line feed, vertical tab, form feed, carriage return, the four
  separators 0x1C to 0x1F, the space, the next-line character 0x85 and the no-break
  space 0xA0.\<close>

definition is_space :: "char \<Rightarrow> bool" where
  "is_space c \<longleftrightarrow>
     c \<in> set [CHR 0x09, CHR 0x0A, CHR 0x0B, CHR 0x0C, CHR 0x0D,
               CHR 0x1C, CHR 0x1D, CHR 0x1E, CHR 0x1F, CHR 0x20, CHR 0x85, CHR 0xA0]"

definition lower :: "string \<Rightarrow> string" where
  "lower s = map lower_char s"

text \<open>\<^verbatim>\<open>str.title\<close>: a letter that follows a letter is lowered, any other letter is
  raised.\<close>

fun title_from :: "bool \<Rightarrow> string \<Rightarrow> string" where
  "title_from prev [] = []"
| "title_from prev (c # cs) =
     (if prev then lower_char c else upper_char c) # title_from (is_alpha c) cs"

definition title :: "string \<Rightarrow> string" where
  "title s = title_from False s"

text \<open>\<^verbatim>\<open>s.startswith(sub)\<close> and the substring test \<^verbatim>\<open>sub in s\<close>.\<close>

fun startswith :: "string \<Rightarrow> string \<Rightarrow> bool" where
  "startswith s [] = True"
| "startswith [] (c # sub) = False"
| "startswith (d # s) (c # sub) = (d = c \<and> startswith s sub)"

fun str_in :: "string \<Rightarrow> string \<Rightarrow> bool" where
  "str_in sub [] = (sub = [])"
| "str_in sub (c # s) = (startswith (c # s) sub \<or> str_in sub s)"

text \<open>\<^verbatim>\<open>sep.join(xs)\<close>.\<close>

fun join :: "string \<Rightarrow> string list \<Rightarrow> string" where
  "join sep [] = []"
| "join sep [x] = x"
| "join sep (x # y # xs) = x @ sep @ join sep (y # xs)"

text \<open>\<^verbatim>\<open>s.replace(',', ' ')\<close>, for single characters.\<close>

definition replace_char :: "char \<Rightarrow> char \<Rightarrow> string \<Rightarrow> string" where
  "replace_char a b s = map (\<lambda>c. if c = a then b else c) s"

text \<open>\<^verbatim>\<open>s.split()\<close>: the maximal runs of characters that are not white space.
  \<open>split_from w s\<close> has read the word \<open>w\<close> (reversed) so far.\<close>

fun split_from :: "string \<Rightarrow> string \<Rightarrow> string list" where
  "split_from w [] = (if w = [] then [] else [rev w])"
| "split_from w (c # s) =
     (if is_space c then (if w = [] then split_from [] s else rev w # split_from [] s)
      else split_from (c # w) s)"

definition split :: "string \<Rightarrow> string list" where
  "split s = split_from [] s"

subsection \<open>Skill equivalence (matcher.py, \<^verbatim>\<open>_skills_match\<close>)\<close>

datatype error = ZeroDivisionError | OverflowError

text \<open>The table \<^verbatim>\<open>variations\<close>, in the order of the dictionary literal.\<close>

definition variations :: "(string \<times> string list) list" where
  "variations =
     [(''javascript'', [''js'', ''ecmascript'']),
      (''typescript'', [''ts'']),
      (''python'', [''py'']),
      (''kubernetes'', [''k8s'']),
      (''postgresql'', [''postgres'', ''psql'']),
      (''mongodb'', [''mongo'']),
      (''react'', [''reactjs'', ''react.js'']),
      (''node.js'', [''nodejs'', ''node'']),
      (''machine learning'', [''ml'']),
      (''artificial intelligence'', [''ai'']),
      (''amazon web services'', [''aws'']),
      (''google cloud platform'', [''gcp'']),
      (''continuous integration'', [''ci'']),
      (''continuous deployment'', [''cd'']),
      (''ci/cd'', [''cicd'', ''ci cd''])]"

text \<open>The loop over \<^verbatim>\<open>variations.items()\<close>: \<open>True\<close> when some entry returns, \<open>False\<close>
  when the loop runs to its end.\<close>

fun variations_loop :: "(string \<times> string list) list \<Rightarrow> string \<Rightarrow> string \<Rightarrow> bool" where
  "variations_loop [] skill1 skill2 = False"
| "variations_loop ((base, variants) # rest) skill1 skill2 =
     (if skill1 = base \<and> skill2 \<in> set variants then True
      else if skill2 = base \<and> skill1 \<in> set variants then True
      else if skill1 \<in> set variants \<and> skill2 \<in> set variants then True
      else variations_loop rest skill1 skill2)"

definition skills_match :: "string \<Rightarrow> string \<Rightarrow> bool" where
  "skills_match skill1 skill2 =
     (if skill1 = skill2 then True
      else if variations_loop variations skill1 skill2 then True
      else if length skill1 > 3 \<and> length skill2 > 3
        then (if str_in skill1 skill2 \<or> str_in skill2 skill1 then True else False)
      else False)"

subsection \<open>Skill match (\<^verbatim>\<open>_calculate_skill_match\<close>, \<^verbatim>\<open>_fuzzy_skill_match\<close>)\<close>

text \<open>\<^verbatim>\<open>user_skills_lower\<close>, a set in the source; it is only tested for membership and
  searched with \<^verbatim>\<open>any\<close>, so a list serves.\<close>

definition user_skills_lower :: "UserProfile \<Rightarrow> string list" where
  "user_skills_lower profile = map (\<lambda>s. lower (name s)) (skills profile)"

text \<open>The test of one job skill against the profile, already lowered:
  \<^verbatim>\<open>req_lower in user_skills_lower or any(self._skills_match(req_lower, us) for us in user_skills_lower)\<close>.\<close>

definition skill_found :: "UserProfile \<Rightarrow> string \<Rightarrow> bool" where
  "skill_found profile req_lower \<longleftrightarrow>
     req_lower \<in> set (user_skills_lower profile)
     \<or> (\<exists>us \<in> set (user_skills_lower profile). skills_match req_lower us)"

text \<open>The two counting loops: \<^verbatim>\<open>required_matches += 1\<close> for each job skill found.\<close>

definition count_matches :: "UserProfile \<Rightarrow> string list \<Rightarrow> nat" where
  "count_matches profile job_skills =
     fold (\<lambda>sk n. if skill_found profile (lower sk) then n + 1 else n) job_skills 0"

text \<open>\<^verbatim>\<open>len(xs) or 1\<close>.\<close>

definition len_or_1 :: "'a list \<Rightarrow> nat" where
  "len_or_1 xs = (if length xs = 0 then 1 else length xs)"

text \<open>The loop of \<^verbatim>\<open>_fuzzy_skill_match\<close>: one for a skill whose lowered name occurs in
  the lowered description, and a half more when its level is expert or advanced.\<close>

definition fuzzy_step :: "string \<Rightarrow> Skill \<Rightarrow> real \<Rightarrow> real" where
  "fuzzy_step desc_lower skill matches =
     (if str_in (lower (name skill)) desc_lower
      then (if level skill \<in> set [EXPERT, ADVANCED] then matches + 1 + 0.5 else matches + 1)
      else matches)"

definition fuzzy_skill_match :: "UserProfile \<Rightarrow> string \<Rightarrow> real" where
  "fuzzy_skill_match profile description =
     (if description = [] then 50
      else
        let desc_lower = lower description;
            total_skills = len_or_1 (skills profile);
            matches = fold (fuzzy_step desc_lower) (skills profile) 0
        in min 100 ((matches / real total_skills) * 100))"

text \<open>The set \<^verbatim>\<open>user_skill_keywords\<close> that the source builds is never read and is left
  out.\<close>

definition calculate_skill_match :: "UserProfile \<Rightarrow> Job \<Rightarrow> real" where
  "calculate_skill_match profile job =
     (if required_skills job = [] \<and> preferred_skills job = []
      then fuzzy_skill_match profile (job_description job)
      else
        let required_matches = count_matches profile (required_skills job);
            preferred_matches = count_matches profile (preferred_skills job);
            req_total = len_or_1 (required_skills job);
            pref_total = len_or_1 (preferred_skills job);
            required_score = (real required_matches / real req_total) * 70;
            preferred_score = (real preferred_matches / real pref_total) * 30
        in min 100 (required_score + preferred_score))"

subsection \<open>Regular expressions: the fragment the four patterns use\<close>

text \<open>A character class is a literal (matched without regard to case, \<^verbatim>\<open>re.IGNORECASE\<close>),
  \<^verbatim>\<open>\d\<close> or \<^verbatim>\<open>\s\<close>.\<close>

datatype cclass = Lit char | Digit | Space

fun cmatch :: "cclass \<Rightarrow> char \<Rightarrow> bool" where
  "cmatch (Lit a) c = (lower_char c = lower_char a)"
| "cmatch Digit c = is_digit c"
| "cmatch Space c = is_space c"

text \<open>Expressions without a group. \<open>Star\<close> and \<open>Opt\<close> are greedy.\<close>

datatype regex =
  Eps | Chr cclass | Star cclass | Opt regex | Seq regex regex | Alt regex regex

text \<open>\<open>star_matches k s\<close>: what is left of \<open>s\<close> after \<open>k*\<close>, the longest match first,
  as backtracking tries them.\<close>

fun star_matches :: "cclass \<Rightarrow> string \<Rightarrow> string list" where
  "star_matches k [] = [[]]"
| "star_matches k (c # s) = (if cmatch k c then star_matches k s @ [c # s] else [c # s])"

text \<open>\<open>rmatch r s\<close>: what is left of \<open>s\<close> after each way of matching \<open>r\<close> at its start,
  in the order backtracking tries them.\<close>

fun rmatch :: "regex \<Rightarrow> string \<Rightarrow> string list" where
  "rmatch Eps s = [s]"
| "rmatch (Chr k) s = (case s of [] \<Rightarrow> [] | c # cs \<Rightarrow> if cmatch k c then [cs] else [])"
| "rmatch (Star k) s = star_matches k s"
| "rmatch (Opt r) s = rmatch r s @ [s]"
| "rmatch (Seq r1 r2) s = concat (map (rmatch r2) (rmatch r1 s))"
| "rmatch (Alt r1 r2) s = rmatch r1 s @ rmatch r2 s"

definition seqs :: "regex list \<Rightarrow> regex" where
  "seqs rs = foldr Seq rs Eps"

definition lit :: "string \<Rightarrow> regex" where
  "lit s = seqs (map (\<lambda>c. Chr (Lit c)) s)"

definition plus1 :: "cclass \<Rightarrow> regex" where
  "plus1 k = Seq (Chr k) (Star k)"

text \<open>Each pattern of the source has one group, \<^verbatim>\<open>(\d+)\<close>: a pattern is the expression
  before the group and the expression after it. \<open>digit_splits s\<close> are the ways to match
  \<^verbatim>\<open>(\d+)\<close> at the start of \<open>s\<close>, the longest first: the digits and what is left.\<close>

datatype pattern = Pattern regex regex

definition digit_splits :: "string \<Rightarrow> (string \<times> string) list" where
  "digit_splits s =
     map (\<lambda>n. (take n s, drop n s)) (rev [1 ..< Suc (length (takeWhile is_digit s))])"

text \<open>\<open>match_at p s\<close>: the groups of the matches of \<open>p\<close> at the start of \<open>s\<close>, in
  backtracking order; \<open>re_search\<close> takes the first match at the leftmost position that
  has one and returns its group 1.\<close>

fun match_at :: "pattern \<Rightarrow> string \<Rightarrow> string list" where
  "match_at (Pattern pre suf) s =
     concat (map (\<lambda>r1. concat (map (\<lambda>(d, r2). map (\<lambda>_. d) (rmatch suf r2)) (digit_splits r1)))
                 (rmatch pre s))"

fun re_search :: "pattern \<Rightarrow> string \<Rightarrow> string option" where
  "re_search p [] = (case match_at p [] of [] \<Rightarrow> None | d # _ \<Rightarrow> Some d)"
| "re_search p (c # s) = (case match_at p (c # s) of [] \<Rightarrow> re_search p s | d # _ \<Rightarrow> Some d)"

text \<open>The value of a string of decimal digits (\<^verbatim>\<open>float(match.group(1))\<close>).\<close>

definition digit_val :: "char \<Rightarrow> nat" where
  "digit_val c = length (takeWhile (\<lambda>d. d \<noteq> c) ''0123456789'')"

definition nat_of_digits :: "string \<Rightarrow> nat" where
  "nat_of_digits ds = foldl (\<lambda>n c. 10 * n + digit_val c) 0 ds"

subsection \<open>Experience match (\<^verbatim>\<open>_extract_required_years\<close>, \<^verbatim>\<open>_calculate_experience_match\<close>)\<close>

text \<open>The four patterns, in the order of the list:
  \<^verbatim>\<open>(\d+)\+?\s*years?\s*(?:of\s+)?experience\<close>,
  \<^verbatim>\<open>(\d+)\+?\s*years?\s*(?:of\s+)?(?:relevant|professional)\<close>,
  \<^verbatim>\<open>minimum\s+(\d+)\s*years?\<close>,
  \<^verbatim>\<open>at\s+least\s+(\d+)\s*years?\<close>.\<close>

definition years_patterns :: "pattern list" where
  "years_patterns =
     [Pattern Eps
        (seqs [Opt (Chr (Lit CHR ''+'')), Star Space, lit ''year'', Opt (Chr (Lit CHR ''s'')),
               Star Space, Opt (seqs [lit ''of'', plus1 Space]), lit ''experience'']),
      Pattern Eps
        (seqs [Opt (Chr (Lit CHR ''+'')), Star Space, lit ''year'', Opt (Chr (Lit CHR ''s'')),
               Star Space, Opt (seqs [lit ''of'', plus1 Space]),
               Alt (lit ''relevant'') (lit ''professional'')]),
      Pattern (seqs [lit ''minimum'', plus1 Space])
        (seqs [Star Space, lit ''year'', Opt (Chr (Lit CHR ''s''))]),
      Pattern (seqs [lit ''at'', plus1 Space, lit ''least'', plus1 Space])
        (seqs [Star Space, lit ''year'', Opt (Chr (Lit CHR ''s''))])]"

text \<open>\<^verbatim>\<open>f"{job.description} {' '.join(job.requirements)}"\<close>.\<close>

definition job_text :: "Job \<Rightarrow> string" where
  "job_text job = job_description job @ '' '' @ join '' '' (requirements job)"

fun first_match :: "pattern list \<Rightarrow> string \<Rightarrow> nat option" where
  "first_match [] txt = None"
| "first_match (p # ps) txt =
     (case re_search p txt of
        Some d \<Rightarrow> Some (nat_of_digits d)
      | None \<Rightarrow> first_match ps txt)"

definition extract_required_years :: "Job \<Rightarrow> nat option" where
  "extract_required_years job = first_match years_patterns (job_text job)"

definition level_years :: "(string \<times> nat) list" where
  "level_years =
     [(''entry'', 0), (''junior'', 1), (''mid'', 3), (''senior'', 5), (''lead'', 7),
      (''principal'', 10), (''staff'', 8), (''director'', 10), (''executive'', 15)]"

fun level_loop :: "(string \<times> nat) list \<Rightarrow> string \<Rightarrow> nat option" where
  "level_loop [] lvl = None"
| "level_loop ((level_name, years) # rest) lvl =
     (if str_in level_name lvl then Some years else level_loop rest lvl)"

text \<open>The figure the profile's years are compared with: the extracted one, else the one
  of the experience level, else 2.\<close>

definition required_years :: "Job \<Rightarrow> nat" where
  "required_years job =
     (case extract_required_years job of
        Some y \<Rightarrow> y
      | None \<Rightarrow>
         (case level_loop level_years (lower (experience_level job)) of
            Some y \<Rightarrow> y
          | None \<Rightarrow> 2))"

text \<open>The division \<^verbatim>\<open>user_years / required_years\<close> raises \<^verbatim>\<open>ZeroDivisionError\<close> when
  the divisor is zero.\<close>

definition calculate_experience_match :: "datetime \<Rightarrow> UserProfile \<Rightarrow> Job \<Rightarrow> error + real" where
  "calculate_experience_match now profile job =
     (let user_years = total_experience_years now profile;
          req = real (required_years job)
      in if user_years \<ge> req
         then Inr (max 0 (min 100 (if user_years > req * 1.5 then 90 else 100)))
         else if req = 0 then Inl ZeroDivisionError
         else Inr (max 0 (min 100 ((user_years / req) * 80))))"

subsection \<open>Education match (\<^verbatim>\<open>_calculate_education_match\<close>)\<close>

definition degree_requirements :: "(string \<times> real) list" where
  "degree_requirements =
     [(''phd'', 100), (''doctorate'', 100), (''master'', 80), (''mba'', 80),
      (''bachelor'', 60), (''associate'', 40), (''degree'', 50)]"

text \<open>The first loop: it leaves at the first degree word of the text, in table order,
  provided the text says \<^verbatim>\<open>required\<close> or \<^verbatim>\<open>must have\<close>.\<close>

fun required_level_loop :: "(string \<times> real) list \<Rightarrow> string \<Rightarrow> real option" where
  "required_level_loop [] txt = None"
| "required_level_loop ((deg, lvl) # rest) txt =
     (if str_in deg txt
      then (if str_in ''required'' txt \<or> str_in ''must have'' txt then Some lvl
            else required_level_loop rest txt)
      else required_level_loop rest txt)"

text \<open>The inner loop of the second: the level of the first degree word, in table order,
  that the profile's degree string contains.\<close>

fun degree_level_loop :: "(string \<times> real) list \<Rightarrow> string \<Rightarrow> real option" where
  "degree_level_loop [] degree_lower = None"
| "degree_level_loop ((deg, lvl) # rest) degree_lower =
     (if str_in deg degree_lower then Some lvl else degree_level_loop rest degree_lower)"

fun user_degrees :: "Education list \<Rightarrow> real list" where
  "user_degrees [] = []"
| "user_degrees (edu # rest) =
     (case degree_level_loop degree_requirements (lower (degree edu)) of
        Some lvl \<Rightarrow> lvl # user_degrees rest
      | None \<Rightarrow> user_degrees rest)"

text \<open>\<^verbatim>\<open>max(xs)\<close> of a list that is not empty.\<close>

fun max_list :: "real list \<Rightarrow> real" where
  "max_list [] = 0"
| "max_list (x # xs) = fold max xs x"

definition calculate_education_match :: "UserProfile \<Rightarrow> Job \<Rightarrow> real" where
  "calculate_education_match profile job =
     (if education profile = [] then 50
      else
        let txt = lower (job_text job) in
        case required_level_loop degree_requirements txt of
          None \<Rightarrow> 80
        | Some required_level \<Rightarrow>
            let degs = user_degrees (education profile) in
            if degs = [] then 40
            else
              let highest_user_degree = max_list degs in
              if highest_user_degree \<ge> required_level then 100
              else (highest_user_degree / required_level) * 80)"

subsection \<open>Location match (\<^verbatim>\<open>_calculate_location_match\<close>)\<close>

definition calculate_location_match :: "UserProfile \<Rightarrow> Job \<Rightarrow> real" where
  "calculate_location_match profile job =
     (if remote_option job
      then (if remote_preference profile \<in> set [''remote'', ''flexible''] then 100 else 80)
      else if job_location job = [] \<or> profile_location profile = [] then 70
      else
        let job_loc = lower (job_location job);
            user_loc = lower (profile_location profile);
            desired_locs = map lower (desired_locations profile)
        in if str_in user_loc job_loc \<or> str_in job_loc user_loc then 100
           else if list_ex (\<lambda>desired. str_in desired job_loc \<or> str_in job_loc desired) desired_locs
           then 100
           else
             let user_parts = set (split (replace_char CHR '','' CHR '' '' user_loc));
                 job_parts = set (split (replace_char CHR '','' CHR '' '' job_loc));
                 common = user_parts \<inter> job_parts
             in if common \<noteq> {} then 80
                else if remote_preference profile = ''remote'' then 40
                else if remote_preference profile = ''flexible'' then 60
                else 30)"

subsection \<open>Salary match and compensation score\<close>

text \<open>Truth of an \<^verbatim>\<open>Optional[int]\<close>: \<^verbatim>\<open>None\<close> and \<^verbatim>\<open>0\<close> are false. \<open>py_or a b\<close> is
  \<^verbatim>\<open>a or b\<close>. \<open>int_of\<close> reads the number; the functions below read it only where the
  value is true.\<close>

definition truthy :: "int option \<Rightarrow> bool" where
  "truthy x = (case x of None \<Rightarrow> False | Some v \<Rightarrow> v \<noteq> 0)"

definition py_or :: "int option \<Rightarrow> int option \<Rightarrow> int option" where
  "py_or a b = (if truthy a then a else b)"

definition int_of :: "int option \<Rightarrow> int" where
  "int_of x = (case x of None \<Rightarrow> 0 | Some v \<Rightarrow> v)"

text \<open>The largest \<^verbatim>\<open>float\<close> is \<open>2^1024 - 2^971\<close>. The conversion of an \<^verbatim>\<open>int\<close> to
  \<^verbatim>\<open>float\<close> rounds to the nearest \<^verbatim>\<open>float\<close> and raises \<^verbatim>\<open>OverflowError\<close> when that
  is beyond the largest, which is from \<open>2^1024 - 2^970\<close> on; the true division of two
  \<^verbatim>\<open>int\<close> raises it when the quotient is that large.\<close>

definition float_limit :: int where
  "float_limit = 2 ^ 1024 - 2 ^ 970"

definition float_overflows :: "int \<Rightarrow> bool" where
  "float_overflows n \<longleftrightarrow> \<bar>n\<bar> \<ge> float_limit"

definition truediv_overflows :: "int \<Rightarrow> int \<Rightarrow> bool" where
  "truediv_overflows a b \<longleftrightarrow> \<bar>real_of_int a / real_of_int b\<bar> \<ge> real_of_int float_limit"

text \<open>In \<^verbatim>\<open>_calculate_salary_match\<close> the product \<^verbatim>\<open>user_min * 0.9\<close> converts
  \<^verbatim>\<open>user_min\<close>, and \<^verbatim>\<open>job_max / user_min\<close> divides two \<^verbatim>\<open>int\<close>.\<close>

definition calculate_salary_match :: "UserProfile \<Rightarrow> Job \<Rightarrow> error + real" where
  "calculate_salary_match profile job =
     (if \<not> truthy (min_salary profile) then Inr 70
      else if \<not> truthy (salary_min job) \<and> \<not> truthy (salary_max job) then Inr 60
      else
        let job_max = py_or (salary_max job) (salary_min job);
            job_min = py_or (salary_min job) (salary_max job);
            user_min = int_of (min_salary profile)
        in if truthy job_max \<and> int_of job_max \<ge> user_min
           then (if truthy job_min \<and> int_of job_min \<ge> user_min then Inr 100 else Inr 85)
           else if truthy job_max \<and> float_overflows user_min then Inl OverflowError
           else if truthy job_max \<and> real_of_int (int_of job_max) \<ge> real_of_int user_min * 0.9
           then Inr 70
           else if truthy job_max
           then (if truediv_overflows (int_of job_max) user_min then Inl OverflowError
                 else Inr (max 0 ((real_of_int (int_of job_max) / real_of_int user_min) * 60)))
           else Inr 50)"

text \<open>In \<^verbatim>\<open>_calculate_compensation_score\<close> the ratio \<^verbatim>\<open>salary / self.profile.min_salary\<close>
  divides two \<^verbatim>\<open>int\<close>.\<close>

definition calculate_compensation_score :: "UserProfile \<Rightarrow> Job \<Rightarrow> error + real" where
  "calculate_compensation_score profile job =
     (if \<not> truthy (salary_max job) \<and> \<not> truthy (salary_min job) then Inr 50
      else
        let salary = int_of (py_or (salary_max job) (salary_min job)) in
        if truthy (min_salary profile)
        then
          (if truediv_overflows salary (int_of (min_salary profile)) then Inl OverflowError
           else
             let ratio = real_of_int salary / real_of_int (int_of (min_salary profile))
             in if ratio \<ge> 1.3 then Inr 100
                else if ratio \<ge> 1.1 then Inr 90
                else if ratio \<ge> 1.0 then Inr 80
                else if ratio \<ge> 0.9 then Inr 70
                else Inr (max 20 (ratio * 60)))
        else if salary \<ge> 200000 then Inr 95
        else if salary \<ge> 150000 then Inr 85
        else if salary \<ge> 120000 then Inr 75
        else if salary \<ge> 90000 then Inr 65
        else if salary \<ge> 60000 then Inr 50
        else Inr 40)"

subsection \<open>Hiring likelihood (\<^verbatim>\<open>_calculate_hiring_likelihood\<close>)\<close>

definition in_demand_skills :: "string list" where
  "in_demand_skills =
     [''python'', ''javascript'', ''aws'', ''kubernetes'', ''react'',
      ''machine learning'', ''data science'', ''golang'', ''rust'']"

text \<open>The function reads the score record it is given: \<^verbatim>\<open>overall_score\<close>,
  \<^verbatim>\<open>skill_match_score\<close>, \<^verbatim>\<open>experience_match_score\<close> and \<^verbatim>\<open>missing_skills\<close>.\<close>

definition calculate_hiring_likelihood :: "UserProfile \<Rightarrow> Job \<Rightarrow> MatchScore \<Rightarrow> real" where
  "calculate_hiring_likelihood profile job score =
     (let base_likelihood = overall_score score * 0.6;
          skill_factor = skill_match_score score * 0.25;
          exp_factor = experience_match_score score * 0.15;
          demand_bonus =
            fold (\<lambda>skill b. if lower (name skill) \<in> set in_demand_skills then b + 2 else b)
                 (skills profile) 0;
          demand_bonus = min 10 demand_bonus;
          missing_penalty = real (length (missing_skills score)) * 3;
          missing_penalty = min 20 missing_penalty;
          likelihood = base_likelihood + skill_factor + exp_factor + demand_bonus - missing_penalty
      in max 5 (min 95 likelihood))"

subsection \<open>Skill details (\<^verbatim>\<open>_get_skill_details\<close>)\<close>

text \<open>The source iterates over two Python sets of strings, \<^verbatim>\<open>user_skills\<close> and
  \<^verbatim>\<open>required\<close>. The order of the iteration is that of the process: a function \<open>it\<close>
  from the strings in the order in which the set comprehension adds them to the strings
  in the order in which the set yields them. An iteration order yields each element of
  the set once.\<close>

type_synonym set_iteration = "string list \<Rightarrow> string list"


text \<open>The sets \<^verbatim>\<open>preferred\<close> and \<^verbatim>\<open>all_job_skills\<close> are only tested for membership and
  searched with \<^verbatim>\<open>any\<close>; lists serve for them.\<close>

definition get_skill_details ::
  "set_iteration \<Rightarrow> UserProfile \<Rightarrow> Job \<Rightarrow> string list \<times> string list \<times> string list" where
  "get_skill_details it profile job =
     (let user_skills = it (map (\<lambda>s. lower (name s)) (skills profile));
          required = it (map lower (required_skills job));
          preferred = map lower (preferred_skills job);
          all_job_skills = required @ preferred;
          is_matched = (\<lambda>skill. skill \<in> set all_job_skills
                          \<or> (\<exists>js \<in> set all_job_skills. skills_match skill js));
          matched = map title (filter is_matched user_skills);
          bonus = map title (filter (\<lambda>skill. \<not> is_matched skill) user_skills);
          missing = map title
            (filter (\<lambda>req. req \<notin> set user_skills
                       \<and> \<not> (\<exists>us \<in> set user_skills. skills_match req us)) required)
      in (matched, missing, bonus))"

subsection \<open>The score of one job (\<^verbatim>\<open>match_job\<close>)\<close>

definition WEIGHTS_skill_match :: real where "WEIGHTS_skill_match = 0.35"
definition WEIGHTS_experience_match :: real where "WEIGHTS_experience_match = 0.20"
definition WEIGHTS_education_match :: real where "WEIGHTS_education_match = 0.10"
definition WEIGHTS_location_match :: real where "WEIGHTS_location_match = 0.15"
definition WEIGHTS_salary_match :: real where "WEIGHTS_salary_match = 0.20"

text \<open>The record \<open>score\<close> is built by assignments in the order of the source: the hiring
  likelihood is computed from the record as it stands after the overall score is
  stored, before the compensation score and the three skill lists are.\<close>

definition match_job ::
  "set_iteration \<Rightarrow> datetime \<Rightarrow> UserProfile \<Rightarrow> Job \<Rightarrow> error + MatchScore" where
  "match_job it now profile job =
     (let score = MatchScore_init;
          score = score\<lparr>skill_match_score := calculate_skill_match profile job\<rparr>
      in case calculate_experience_match now profile job of
           Inl e \<Rightarrow> Inl e
         | Inr ex \<Rightarrow>
            let score = score\<lparr>experience_match_score := ex\<rparr>;
                score = score\<lparr>education_match_score := calculate_education_match profile job\<rparr>;
                score = score\<lparr>location_match_score := calculate_location_match profile job\<rparr>
            in case calculate_salary_match profile job of
                 Inl e \<Rightarrow> Inl e
               | Inr sal \<Rightarrow>
                  let score = score\<lparr>salary_match_score := sal\<rparr>;
                      score = score\<lparr>overall_score :=
                                skill_match_score score * WEIGHTS_skill_match +
                                experience_match_score score * WEIGHTS_experience_match +
                                education_match_score score * WEIGHTS_education_match +
                                location_match_score score * WEIGHTS_location_match +
                                salary_match_score score * WEIGHTS_salary_match\<rparr>;
                      score = score\<lparr>hiring_likelihood :=
                                calculate_hiring_likelihood profile job score\<rparr>
                  in case calculate_compensation_score profile job of
                       Inl e \<Rightarrow> Inl e
                     | Inr cmp \<Rightarrow>
                        let score = score\<lparr>compensation_score := cmp\<rparr>;
                            details = get_skill_details it profile job;
                            score = score\<lparr>matched_skills := fst details,
                                          missing_skills := fst (snd details),
                                          bonus_skills := snd (snd details)\<rparr>
                        in Inr score)"

subsection \<open>Ranking (\<^verbatim>\<open>rank_jobs\<close>)\<close>

text \<open>The list comprehension \<^verbatim>\<open>[(job, self.match_job(job)) for job in jobs]\<close>: it stops
  at the first job whose scoring raises. The clock reading is the same for every job of
  one call.\<close>

fun scored_jobs ::
  "set_iteration \<Rightarrow> datetime \<Rightarrow> UserProfile \<Rightarrow> Job list \<Rightarrow> error + (Job \<times> MatchScore) list" where
  "scored_jobs it now profile [] = Inr []"
| "scored_jobs it now profile (job # jobs) =
     (case match_job it now profile job of
        Inl e \<Rightarrow> Inl e
      | Inr ms \<Rightarrow>
         (case scored_jobs it now profile jobs of
            Inl e \<Rightarrow> Inl e
          | Inr rest \<Rightarrow> Inr ((job, ms) # rest)))"

text \<open>\<^verbatim>\<open>sort_keys.get(sort_by, sort_keys["overall"])\<close>.\<close>

definition sort_keys :: "string \<rightharpoonup> (Job \<times> MatchScore \<Rightarrow> real)" where
  "sort_keys =
     [''overall'' \<mapsto> (\<lambda>x. overall_score (snd x)),
      ''hiring_likelihood'' \<mapsto> (\<lambda>x. hiring_likelihood (snd x)),
      ''compensation'' \<mapsto> (\<lambda>x. compensation_score (snd x)),
      ''skill_match'' \<mapsto> (\<lambda>x. skill_match_score (snd x))]"

definition key_func :: "string \<Rightarrow> (Job \<times> MatchScore \<Rightarrow> real)" where
  "key_func sort_by =
     (case sort_keys sort_by of
        Some f \<Rightarrow> f
      | None \<Rightarrow> (\<lambda>x. overall_score (snd x)))"

text \<open>\<^verbatim>\<open>xs.sort(key=f, reverse=True)\<close>: Python's sort is stable, and with
  \<^verbatim>\<open>reverse=True\<close> elements of equal key keep their order. That is the stable
  insertion sort on the negated key.\<close>

definition sort_reverse :: "('a \<Rightarrow> real) \<Rightarrow> 'a list \<Rightarrow> 'a list" where
  "sort_reverse f xs = sort_key (\<lambda>x. - f x) xs"

definition rank_jobs ::
  "set_iteration \<Rightarrow> datetime \<Rightarrow> UserProfile \<Rightarrow> Job list \<Rightarrow> string
     \<Rightarrow> error + (Job \<times> MatchScore) list" where
  "rank_jobs it now profile jobs sort_by =
     (case scored_jobs it now profile jobs of
        Inl e \<Rightarrow> Inl e
      | Inr scored \<Rightarrow> Inr (sort_reverse (key_func sort_by) scored))"

subsection \<open>Scores that agree up to the order of their skill lists\<close>


subsection \<open>Example inputs\<close>

text \<open>A profile and a job with every optional field missing, one day in microseconds,
  a position that is still held and one that has ended, and three jobs to rank.\<close>

definition example_profile :: UserProfile where
  "example_profile = UserProfile_init ''profile-1''"

definition example_job :: Job where
  "example_job = Job_init ''job-1''"

definition day :: int where
  "day = 86400000000"

definition ongoing_experience :: "datetime \<Rightarrow> Experience" where
  "ongoing_experience start =
     \<lparr>exp_title = ''Engineer'', exp_company = ''Acme'', start_date = start, end_date = None,
      exp_description = [], achievements = [], skills_used = [], exp_location = [],
      is_current = True\<rparr>"


definition job_onsite :: Job where
  "job_onsite = example_job\<lparr>job_title := ''First''\<rparr>"

definition job_remote :: Job where
  "job_remote = example_job\<lparr>job_title := ''Second'', remote_option := True\<rparr>"

definition job_onsite_too :: Job where
  "job_onsite_too = example_job\<lparr>job_title := ''Third''\<rparr>"

text \<open>A profile whose only position starts a day after the clock reading \<open>day\<close>, and a
  job of experience level \<open>entry\<close>.\<close>

definition future_profile :: UserProfile where
  "future_profile = example_profile\<lparr>experiences := [ongoing_experience (2 * day)]\<rparr>"

definition entry_job :: Job where
  "entry_job = example_job\<lparr>experience_level := ''entry''\<rparr>"

text \<open>Two iteration orders: each string where it last occurs, and the reverse of that.\<close>

definition reversed_iteration :: set_iteration where
  "reversed_iteration xs = rev (remdups xs)"

section \<open>Properties\<close>

subsection \<open>Auxiliary facts\<close>

lemma variations_loop_sym:
  "variations_loop tbl a b = variations_loop tbl b a"
  by (induction tbl a b rule: variations_loop.induct) auto

lemma skills_match_refl: "skills_match a a"
  by (simp add: skills_match_def)

lemma skill_found_iff:
  "skill_found p r \<longleftrightarrow> (\<exists>us \<in> set (user_skills_lower p). skills_match r us)"
  unfolding skill_found_def using skills_match_refl by blast

lemma fold_count:
  "fold (\<lambda>x n. if P x then n + 1 else n) xs (k::nat) = k + length (filter P xs)"
  by (induction xs arbitrary: k) auto

lemma count_matches_eq:
  "count_matches p xs = length (filter (\<lambda>sk. skill_found p (lower sk)) xs)"
  by (simp add: count_matches_def fold_count)

lemma fold_bonus:
  "fold (\<lambda>x b. if P x then b + 2 else b) xs (k::real) = k + 2 * real (length (filter P xs))"
  by (induction xs arbitrary: k) auto

lemma fuzzy_fold_nonneg:
  "0 \<le> m \<Longrightarrow> 0 \<le> fold (fuzzy_step d) sks m"
  by (induction sks arbitrary: m) (auto simp: fuzzy_step_def)

lemma fuzzy_skill_match_range:
  "0 \<le> fuzzy_skill_match p d \<and> fuzzy_skill_match p d \<le> 100"
proof -
  have "0 \<le> fold (fuzzy_step (lower d)) (skills p) 0"
    by (rule fuzzy_fold_nonneg) simp
  then show ?thesis
    by (simp add: fuzzy_skill_match_def Let_def len_or_1_def)
qed

lemma calculate_skill_match_range:
  "0 \<le> calculate_skill_match p j \<and> calculate_skill_match p j \<le> 100"
  using fuzzy_skill_match_range [of p "job_description j"]
  by (simp add: calculate_skill_match_def Let_def len_or_1_def)

lemma calculate_experience_match_range:
  "calculate_experience_match now p j = Inr v \<Longrightarrow> 0 \<le> v \<and> v \<le> 100"
  by (auto simp: calculate_experience_match_def Let_def split: if_splits)

text \<open>The experience match raises exactly when the profile's total years are negative
  and the job asks for zero years, and then it is the division by zero.\<close>

lemma calculate_experience_match_error:
  "calculate_experience_match now p j = Inl e \<longleftrightarrow>
     e = ZeroDivisionError \<and> total_experience_years now p < 0 \<and> required_years j = 0"
  by (auto simp: calculate_experience_match_def Let_def split: if_splits)

lemma required_level_loop_mem:
  "required_level_loop tbl t = Some l \<Longrightarrow> l \<in> snd ` set tbl"
  by (induction tbl t rule: required_level_loop.induct) (auto split: if_splits)

lemma degree_level_loop_mem:
  "degree_level_loop tbl t = Some l \<Longrightarrow> l \<in> snd ` set tbl"
  by (induction tbl t rule: degree_level_loop.induct) (auto split: if_splits)

lemma user_degrees_mem:
  "l \<in> set (user_degrees es) \<Longrightarrow> l \<in> snd ` set degree_requirements"
  by (induction es) (auto split: option.splits dest: degree_level_loop_mem)

lemma fold_max_mem: "fold max xs (x::real) \<in> set (x # xs)"
  by (induction xs arbitrary: x) (auto simp: max_def)

lemma max_list_mem: "xs \<noteq> [] \<Longrightarrow> max_list xs \<in> set xs"
  using fold_max_mem by (cases xs) auto

lemma degree_levels_bounds:
  "l \<in> snd ` set degree_requirements \<Longrightarrow> 40 \<le> l \<and> l \<le> 100"
  by (auto simp: degree_requirements_def)

lemma calculate_education_match_range:
  "0 \<le> calculate_education_match p j \<and> calculate_education_match p j \<le> 100"
proof (cases "required_level_loop degree_requirements (lower (job_text j))")
  case None
  then show ?thesis by (simp add: calculate_education_match_def)
next
  case (Some r)
  then have r: "40 \<le> r \<and> r \<le> 100"
    using required_level_loop_mem degree_levels_bounds by blast
  show ?thesis
  proof (cases "user_degrees (education p) = []")
    case True
    then show ?thesis using Some by (simp add: calculate_education_match_def)
  next
    case False
    define h where "h = max_list (user_degrees (education p))"
    define q where "q = h / r"
    have "h \<in> snd ` set degree_requirements"
      unfolding h_def using False max_list_mem user_degrees_mem by blast
    then have h: "40 \<le> h"
      using degree_levels_bounds by blast
    have q0: "0 \<le> q"
      unfolding q_def using h r by simp
    have q1: "h < r \<Longrightarrow> q \<le> 1"
      unfolding q_def using r by (simp add: divide_le_eq)
    have eq: "calculate_education_match p j =
        (if education p = [] then 50 else if h \<ge> r then 100 else q * 80)"
      unfolding calculate_education_match_def Let_def h_def q_def
      using Some False by simp
    show ?thesis
      unfolding eq using q0 q1 by auto
  qed
qed

lemma calculate_location_match_range:
  "0 \<le> calculate_location_match p j \<and> calculate_location_match p j \<le> 100"
  by (simp add: calculate_location_match_def Let_def)

lemma calculate_compensation_score_range:
  assumes "calculate_compensation_score p j = Inr v"
  shows "20 \<le> v \<and> v \<le> 100"
proof -
  define salary where "salary = int_of (py_or (salary_max j) (salary_min j))"
  define ratio where "ratio = real_of_int salary / real_of_int (int_of (min_salary p))"
  have eq: "calculate_compensation_score p j =
     (if \<not> truthy (salary_max j) \<and> \<not> truthy (salary_min j) then Inr 50
      else if truthy (min_salary p)
        then (if truediv_overflows salary (int_of (min_salary p)) then Inl OverflowError
              else if ratio \<ge> 1.3 then Inr 100 else if ratio \<ge> 1.1 then Inr 90
              else if ratio \<ge> 1.0 then Inr 80 else if ratio \<ge> 0.9 then Inr 70
              else Inr (max 20 (ratio * 60)))
        else if salary \<ge> 200000 then Inr 95
        else if salary \<ge> 150000 then Inr 85
        else if salary \<ge> 120000 then Inr 75
        else if salary \<ge> 90000 then Inr 65
        else if salary \<ge> 60000 then Inr 50
        else Inr 40)"
    unfolding calculate_compensation_score_def Let_def ratio_def salary_def by (rule refl)
  show ?thesis
    using assms unfolding eq by (auto simp: max_def split: if_splits)
qed

lemma calculate_hiring_likelihood_range:
  "5 \<le> calculate_hiring_likelihood p j s \<and> calculate_hiring_likelihood p j s \<le> 95"
  by (simp add: calculate_hiring_likelihood_def Let_def)

text \<open>A salary match that is returned stays within 0 and 100 when the profile's minimum
  salary is not negative.\<close>

lemma calculate_salary_match_range:
  assumes "0 \<le> int_of (min_salary p)" and "calculate_salary_match p j = Inr v"
  shows "0 \<le> v \<and> v \<le> 100"
proof -
  define jm where "jm = py_or (salary_max j) (salary_min j)"
  define jn where "jn = py_or (salary_min j) (salary_max j)"
  define u where "u = real_of_int (int_of (min_salary p))"
  define m where "m = real_of_int (int_of jm)"
  define ratio where "ratio = m / u"
  have eq: "calculate_salary_match p j =
     (if \<not> truthy (min_salary p) then Inr 70
      else if \<not> truthy (salary_min j) \<and> \<not> truthy (salary_max j) then Inr 60
      else if truthy jm \<and> int_of jm \<ge> int_of (min_salary p)
        then (if truthy jn \<and> int_of jn \<ge> int_of (min_salary p) then Inr 100 else Inr 85)
      else if truthy jm \<and> float_overflows (int_of (min_salary p)) then Inl OverflowError
      else if truthy jm \<and> m \<ge> u * 0.9 then Inr 70
      else if truthy jm
        then (if truediv_overflows (int_of jm) (int_of (min_salary p)) then Inl OverflowError
              else Inr (max 0 (ratio * 60)))
      else Inr 50)"
    unfolding calculate_salary_match_def Let_def ratio_def m_def u_def jm_def jn_def
    by (rule refl)
  have key: "ratio * 60 \<le> 100" if "truthy (min_salary p)" and "\<not> m \<ge> u * 0.9"
  proof -
    have upos: "0 < u"
      unfolding u_def using assms(1) that(1)
      by (auto simp: truthy_def int_of_def split: option.splits)
    have "m < u * 0.9" using that(2) by simp
    then have "ratio < 0.9"
      unfolding ratio_def using upos by (simp add: divide_less_eq)
    then show ?thesis by simp
  qed
  show ?thesis
    using assms(2) key unfolding eq by (auto simp: max_def split: if_splits)
qed

lemma calculate_salary_match_error:
  "calculate_salary_match p j = Inl e \<Longrightarrow> e = OverflowError"
  by (auto simp: calculate_salary_match_def Let_def split: if_splits)

lemma calculate_compensation_score_error:
  "calculate_compensation_score p j = Inl e \<Longrightarrow> e = OverflowError"
  by (auto simp: calculate_compensation_score_def Let_def split: if_splits)

lemma no_min_salary_salary_match:
  "\<not> truthy (min_salary p) \<Longrightarrow> calculate_salary_match p j = Inr 70"
  by (simp add: calculate_salary_match_def)

lemma no_min_salary_compensation_score:
  "\<not> truthy (min_salary p) \<Longrightarrow> \<exists>v. calculate_compensation_score p j = Inr v"
  by (simp add: calculate_compensation_score_def Let_def)

subsection \<open>The fields of a returned score\<close>

lemma match_job_zero_division:
  "match_job it now p j = Inl ZeroDivisionError
     \<longleftrightarrow> calculate_experience_match now p j = Inl ZeroDivisionError"
  using calculate_salary_match_error [of p j ZeroDivisionError]
    calculate_compensation_score_error [of p j ZeroDivisionError]
  by (auto simp: match_job_def Let_def split: sum.splits)

text \<open>A profile that states no minimum salary is scored whenever its total experience
  is not negative or the job asks for more than zero years.\<close>

lemma match_job_returns:
  assumes "\<not> truthy (min_salary p)"
    and "0 \<le> total_experience_years now p \<or> 0 < required_years j"
  shows "\<exists>ms. match_job it now p j = Inr ms"
proof -
  have "\<exists>ex. calculate_experience_match now p j = Inr ex"
  proof (cases "calculate_experience_match now p j")
    case (Inl e)
    then show ?thesis using assms(2) calculate_experience_match_error by auto
  next
    case (Inr ex)
    then show ?thesis by blast
  qed
  then show ?thesis
    using no_min_salary_salary_match [OF assms(1), of j]
      no_min_salary_compensation_score [OF assms(1), of j]
    by (auto simp: match_job_def Let_def)
qed

lemma no_experience_years: "experiences p = [] \<Longrightarrow> total_experience_years now p = 0"
  by (simp add: total_experience_years_def)

lemma match_job_sub_scores:
  assumes "match_job it now p j = Inr ms"
  shows "skill_match_score ms = calculate_skill_match p j"
    and "calculate_experience_match now p j = Inr (experience_match_score ms)"
    and "education_match_score ms = calculate_education_match p j"
    and "location_match_score ms = calculate_location_match p j"
    and "calculate_salary_match p j = Inr (salary_match_score ms)"
    and "calculate_compensation_score p j = Inr (compensation_score ms)"
    and "culture_fit_score ms = 0"
  using assms
  by (auto simp: match_job_def Let_def MatchScore_init_def split: sum.splits)

lemma match_job_skill_lists:
  assumes "match_job it now p j = Inr ms"
  shows "matched_skills ms = fst (get_skill_details it p j)"
    and "missing_skills ms = fst (snd (get_skill_details it p j))"
    and "bonus_skills ms = snd (snd (get_skill_details it p j))"
  using assms
  by (auto simp: match_job_def Let_def MatchScore_init_def split: sum.splits)

lemma match_job_overall:
  assumes "match_job it now p j = Inr ms"
  shows "overall_score ms =
     skill_match_score ms * WEIGHTS_skill_match +
     experience_match_score ms * WEIGHTS_experience_match +
     education_match_score ms * WEIGHTS_education_match +
     location_match_score ms * WEIGHTS_location_match +
     salary_match_score ms * WEIGHTS_salary_match"
  using assms
  by (auto simp: match_job_def Let_def MatchScore_init_def split: sum.splits)

text \<open>When the hiring likelihood is computed the record still holds the empty list of
  missing skills it was created with, so the penalty term is zero.\<close>

lemma match_job_hiring_likelihood:
  assumes "match_job it now p j = Inr ms"
  shows "hiring_likelihood ms =
     max 5 (min 95 (overall_score ms * 0.6 + skill_match_score ms * 0.25 +
       experience_match_score ms * 0.15 +
       min 10 (2 * real (length (filter (\<lambda>s. lower (name s) \<in> set in_demand_skills)
                                        (skills p))))))"
  using assms
  by (auto simp: match_job_def Let_def MatchScore_init_def calculate_hiring_likelihood_def
      fold_bonus split: sum.splits)

subsection \<open>Iteration orders and the clock\<close>







subsection \<open>Ranking: auxiliary facts\<close>

lemma scored_jobs_returns:
  assumes "\<forall>job \<in> set jobs. \<exists>ms. match_job it now p job = Inr ms"
  shows "\<exists>scored. scored_jobs it now p jobs = Inr scored
           \<and> list_all2 (\<lambda>job x. fst x = job \<and> match_job it now p job = Inr (snd x)) jobs scored"
  using assms
proof (induction jobs)
  case Nil
  then show ?case by simp
next
  case (Cons job jobs)
  then obtain ms where ms: "match_job it now p job = Inr ms" by auto
  from Cons obtain rest where rest: "scored_jobs it now p jobs = Inr rest"
    "list_all2 (\<lambda>job x. fst x = job \<and> match_job it now p job = Inr (snd x)) jobs rest"
    by auto
  show ?case using ms rest by simp
qed

lemma scored_jobs_error:
  "scored_jobs it now p jobs = Inl e \<Longrightarrow> \<exists>job \<in> set jobs. match_job it now p job = Inl e"
  by (induction jobs) (auto split: sum.splits)

lemma sort_reverse_mset: "mset (sort_reverse f xs) = mset xs"
  by (simp add: sort_reverse_def)

lemma sort_reverse_sorted: "sorted_wrt (\<lambda>a b. f a \<ge> f b) (sort_reverse f xs)"
proof -
  have "sorted (map (\<lambda>x. - f x) (sort_key (\<lambda>x. - f x) xs))"
    by (rule sorted_sort_key)
  then show ?thesis
    by (simp add: sort_reverse_def sorted_map)
qed

lemma sort_reverse_stable:
  "filter (\<lambda>x. f x = k) (sort_reverse f xs) = filter (\<lambda>x. f x = k) xs"
  using sort_key_stable [of "\<lambda>x. - f x" "- k" xs] by (simp add: sort_reverse_def)

lemma key_func_known:
  "key_func ''overall'' = (\<lambda>x. overall_score (snd x))"
  "key_func ''hiring_likelihood'' = (\<lambda>x. hiring_likelihood (snd x))"
  "key_func ''compensation'' = (\<lambda>x. compensation_score (snd x))"
  "key_func ''skill_match'' = (\<lambda>x. skill_match_score (snd x))"
  by (simp_all add: key_func_def sort_keys_def)

lemma key_func_unknown:
  "sort_by \<notin> {''overall'', ''hiring_likelihood'', ''compensation'', ''skill_match''}
   \<Longrightarrow> key_func sort_by = (\<lambda>x. overall_score (snd x))"
  by (simp add: key_func_def sort_keys_def)

lemma example_jobs_score:
  "\<forall>job \<in> set [job_onsite, job_remote, job_onsite_too].
     \<exists>ms. match_job it 0 example_profile job = Inr ms"
proof -
  have "experiences example_profile = []" and m: "\<not> truthy (min_salary example_profile)"
    by (simp_all add: example_profile_def UserProfile_init_def truthy_def)
  then have "0 \<le> total_experience_years 0 example_profile"
    by (simp add: no_experience_years)
  then show ?thesis using match_job_returns [OF m] by blast
qed

subsection \<open>The claims\<close>

text \<open>
  Claim C1. For every profile and job, the overall score of the returned MatchScore is the
  weighted sum of its five primary sub-scores, with the weights 0.35 (skill), 0.20
  (experience), 0.10 (education), 0.15 (location) and 0.20 (salary). In the model the
  arithmetic is exact, so the sum holds as an equation.
\<close>

theorem overall_score_weighted_sum:
  assumes "match_job it now p j = Inr ms"
  shows "overall_score ms =
     skill_match_score ms * 0.35 + experience_match_score ms * 0.20 +
     education_match_score ms * 0.10 + location_match_score ms * 0.15 +
     salary_match_score ms * 0.20"
  using match_job_overall [OF assms]
  by (simp add: WEIGHTS_skill_match_def WEIGHTS_experience_match_def
      WEIGHTS_education_match_def WEIGHTS_location_match_def WEIGHTS_salary_match_def)

text \<open>The empty profile against the empty job: sub-scores 50, 0, 50, 70 and 70, overall
  score 47.\<close>

theorem overall_score_weighted_sum_witness:
  "\<exists>ms. match_job remdups 0 example_profile example_job = Inr ms
     \<and> skill_match_score ms = 50 \<and> experience_match_score ms = 0
     \<and> education_match_score ms = 50 \<and> location_match_score ms = 70
     \<and> salary_match_score ms = 70 \<and> overall_score ms = 47
     \<and> overall_score ms =
         skill_match_score ms * 0.35 + experience_match_score ms * 0.20 +
         education_match_score ms * 0.10 + location_match_score ms * 0.15 +
         salary_match_score ms * 0.20"
proof -
  have run: "match_job remdups 0 example_profile example_job =
      Inr \<lparr>overall_score = 47, skill_match_score = 50, experience_match_score = 0,
           education_match_score = 50, location_match_score = 70,
           salary_match_score = 70, culture_fit_score = 0, hiring_likelihood = 40.7,
           compensation_score = 50, matched_skills = [], missing_skills = [],
           bonus_skills = []\<rparr>"
    by code_simp
  show ?thesis
    using overall_score_weighted_sum [OF run] by (simp add: run)
qed

text \<open>
  Claim C2. Every sub-score of a returned MatchScore lies in [0, 100] and the hiring
  likelihood in [5, 95]. The salary match has no upper clamp: for a profile whose minimum
  salary is -1 and a job whose salary ceiling is -10 the ratio is 10 and the salary match
  is 600; the overall score is then 153. (No skill is listed, so the iteration order
  plays no part.)
\<close>

theorem salary_match_score_above_100:
  "match_job remdups 0 (example_profile\<lparr>min_salary := Some (- 1)\<rparr>)
               (example_job\<lparr>salary_max := Some (- 10)\<rparr>) =
     Inr \<lparr>overall_score = 153, skill_match_score = 50, experience_match_score = 0,
          education_match_score = 50, location_match_score = 70,
          salary_match_score = 600, culture_fit_score = 0, hiring_likelihood = 95,
          compensation_score = 100, matched_skills = [], missing_skills = [],
          bonus_skills = []\<rparr>"
  by code_simp

text \<open>
  Claim C3. The hiring likelihood is the clamped sum with a penalty of three points per
  missing required skill, the length of the returned record's list of missing skills.
  \<open>match_job\<close> computes the likelihood before it stores that list: for the empty profile
  and a job that requires Python the list is \<open>[''Python'']\<close> and the likelihood is 17.7,
  where the claim's formula gives 14.7. (The sets have one element at most, so the
  iteration order plays no part.)
\<close>

theorem hiring_likelihood_misses_penalty:
  "match_job remdups 0 example_profile (example_job\<lparr>required_skills := [''Python'']\<rparr>) =
     Inr \<lparr>overall_score = 29.5, skill_match_score = 0, experience_match_score = 0,
          education_match_score = 50, location_match_score = 70,
          salary_match_score = 70, culture_fit_score = 0, hiring_likelihood = 17.7,
          compensation_score = 50, matched_skills = [], missing_skills = [''Python''],
          bonus_skills = []\<rparr>"
  by code_simp

text \<open>
  Claim C4. For every profile, every list of jobs and every sort key, \<open>rank_jobs\<close>
  returns one pair per input job, ordered by the selected score descending, with ties in
  input order; the empty list gives the empty list. The ranking scores the jobs one
  after the other with nothing to catch an exception, so it raises when the scoring of a
  job raises. As amended: when the scoring of each job returns, \<open>rank_jobs\<close> returns one
  pair per input job, each job with its own score, ordered by the selected score
  descending, and pairs of equal score keep their input order; the empty list gives the
  empty list. The list \<open>scored\<close> is the pairs in input order.
\<close>

theorem rank_jobs_sorted_stable:
  assumes "\<forall>job \<in> set jobs. \<exists>ms. match_job it now p job = Inr ms"
  shows "\<exists>scored ranked.
       rank_jobs it now p jobs sort_by = Inr ranked
     \<and> list_all2 (\<lambda>job x. fst x = job \<and> match_job it now p job = Inr (snd x)) jobs scored
     \<and> mset ranked = mset scored
     \<and> length ranked = length jobs
     \<and> sorted_wrt (\<lambda>a b. key_func sort_by a \<ge> key_func sort_by b) ranked
     \<and> (\<forall>k. filter (\<lambda>x. key_func sort_by x = k) ranked
             = filter (\<lambda>x. key_func sort_by x = k) scored)
     \<and> key_func ''overall'' = (\<lambda>x. overall_score (snd x))
     \<and> key_func ''hiring_likelihood'' = (\<lambda>x. hiring_likelihood (snd x))
     \<and> key_func ''compensation'' = (\<lambda>x. compensation_score (snd x))
     \<and> key_func ''skill_match'' = (\<lambda>x. skill_match_score (snd x))
     \<and> rank_jobs it now p [] sort_by = Inr []"
proof -
  from scored_jobs_returns [OF assms] obtain scored where
    sc: "scored_jobs it now p jobs = Inr scored" and
    all2: "list_all2 (\<lambda>job x. fst x = job \<and> match_job it now p job = Inr (snd x)) jobs scored"
    by blast
  define ranked where "ranked = sort_reverse (key_func sort_by) scored"
  have r: "rank_jobs it now p jobs sort_by = Inr ranked"
    by (simp add: rank_jobs_def sc ranked_def)
  have m: "mset ranked = mset scored"
    unfolding ranked_def by (rule sort_reverse_mset)
  have "length ranked = length scored"
    using m by (metis size_mset)
  then have l: "length ranked = length jobs"
    using all2 by (simp add: list_all2_lengthD)
  have s: "sorted_wrt (\<lambda>a b. key_func sort_by a \<ge> key_func sort_by b) ranked"
    unfolding ranked_def by (rule sort_reverse_sorted)
  have st: "\<forall>k. filter (\<lambda>x. key_func sort_by x = k) ranked
             = filter (\<lambda>x. key_func sort_by x = k) scored"
    unfolding ranked_def by (simp add: sort_reverse_stable)
  have e: "rank_jobs it now p [] sort_by = Inr []"
    by (simp add: rank_jobs_def sort_reverse_def)
  show ?thesis
    using r all2 m l s st e key_func_known by blast
qed

text \<open>Three jobs for the empty profile, with hiring likelihoods 40.7, 43.4 and 40.7:
  ranked by hiring likelihood the second job comes first, and the first and the third,
  which tie, keep their order.\<close>

theorem rank_jobs_sorted_stable_witness:
  "\<exists>ranked.
       rank_jobs remdups 0 example_profile [job_onsite, job_remote, job_onsite_too]
         ''hiring_likelihood'' = Inr ranked
     \<and> map fst ranked = [job_remote, job_onsite, job_onsite_too]
     \<and> map (hiring_likelihood \<circ> snd) ranked = [43.4, 40.7, 40.7]
     \<and> length ranked = 3
     \<and> sorted_wrt (\<lambda>a b. key_func ''hiring_likelihood'' a \<ge> key_func ''hiring_likelihood'' b)
          ranked"
proof -
  from rank_jobs_sorted_stable [OF example_jobs_score, of remdups "''hiring_likelihood''"]
  obtain ranked where
    r: "rank_jobs remdups 0 example_profile [job_onsite, job_remote, job_onsite_too]
          ''hiring_likelihood'' = Inr ranked" and
    l: "length ranked = length [job_onsite, job_remote, job_onsite_too]" and
    s: "sorted_wrt (\<lambda>a b. key_func ''hiring_likelihood'' a \<ge> key_func ''hiring_likelihood'' b)
          ranked"
    by blast
  have run: "map_sum id (map (\<lambda>x. (fst x, hiring_likelihood (snd x))))
        (rank_jobs remdups 0 example_profile [job_onsite, job_remote, job_onsite_too]
           ''hiring_likelihood'')
      = Inr [(job_remote, 43.4), (job_onsite, 40.7), (job_onsite_too, 40.7)]"
    by code_simp
  have "map (\<lambda>x. (fst x, hiring_likelihood (snd x))) ranked
      = [(job_remote, 43.4), (job_onsite, 40.7), (job_onsite_too, 40.7)]"
    using run by (simp add: r)
  then have "map fst ranked = [job_remote, job_onsite, job_onsite_too]
      \<and> map (hiring_likelihood \<circ> snd) ranked = [43.4, 40.7, 40.7]"
    by (auto simp: map_eq_Cons_conv)
  then show ?thesis using r l s by auto
qed

text \<open>Where the claim as stated fails: a profile whose only position starts a day after
  the clock reading has a negative total experience, the second job asks for zero years,
  and the ranking by overall score raises.\<close>

theorem rank_jobs_raises:
  "rank_jobs remdups day future_profile [example_job, entry_job] ''overall''
   = Inl ZeroDivisionError"
  by code_simp

text \<open>
  Claim C5. For a job that lists a required or a preferred skill, the skill match is
  min(100, 70 * matched required / total required + 30 * matched preferred / total
  preferred), where a job skill is matched when its lowered name is equivalent to the
  lowered name of some profile skill. A kind of which the job lists no skill contributes
  nothing (the source divides by one there).
\<close>

theorem skill_match_formula:
  assumes "required_skills j \<noteq> [] \<or> preferred_skills j \<noteq> []"
  shows "calculate_skill_match p j =
     min 100
       (70 * (if required_skills j = [] then 0
              else real (length (filter
                     (\<lambda>sk. \<exists>s \<in> set (skills p). skills_match (lower sk) (lower (name s)))
                     (required_skills j)))
                   / real (length (required_skills j)))
        + 30 * (if preferred_skills j = [] then 0
              else real (length (filter
                     (\<lambda>sk. \<exists>s \<in> set (skills p). skills_match (lower sk) (lower (name s)))
                     (preferred_skills j)))
                   / real (length (preferred_skills j))))"
proof -
  have found: "skill_found p (lower sk)
      \<longleftrightarrow> (\<exists>s \<in> set (skills p). skills_match (lower sk) (lower (name s)))" for sk
    by (simp add: skill_found_iff user_skills_lower_def)
  show ?thesis
    using assms
    by (auto simp: calculate_skill_match_def Let_def count_matches_eq found len_or_1_def
        mult.commute)
qed

text \<open>The example of the specification: the job requires Python and AWS and prefers
  Docker, the profile has Python and Kubernetes; one of two required skills is matched
  and the score is 35.\<close>

theorem skill_match_formula_witness:
  "calculate_skill_match
     (example_profile\<lparr>skills := [Skill_init ''Python'', Skill_init ''Kubernetes'']\<rparr>)
     (example_job\<lparr>required_skills := [''Python'', ''AWS''],
                  preferred_skills := [''Docker'']\<rparr>) = 35"
proof -
  have hyp: "required_skills (example_job\<lparr>required_skills := [''Python'', ''AWS''],
                  preferred_skills := [''Docker'']\<rparr>) \<noteq> []
     \<or> preferred_skills (example_job\<lparr>required_skills := [''Python'', ''AWS''],
                  preferred_skills := [''Docker'']\<rparr>) \<noteq> []"
    by simp
  show ?thesis
    unfolding skill_match_formula [OF hyp] by code_simp
qed




text \<open>
  Claim C7. The skill-equivalence relation is symmetric: for all skill names \<open>a\<close> and
  \<open>b\<close>, \<open>skills_match a b = skills_match b a\<close>. The synonym table is covered because the
  statement holds for every pair of strings.
\<close>

theorem skills_match_symmetric: "skills_match a b = skills_match b a"
proof (cases "a = b")
  case True
  then show ?thesis by simp
next
  case False
  then have "b \<noteq> a" by simp
  have loop: "variations_loop variations a b = variations_loop variations b a"
    by (rule variations_loop_sym)
  have sub: "(str_in a b \<or> str_in b a) = (str_in b a \<or> str_in a b)"
    by blast
  have len: "(length a > 3 \<and> length b > 3) = (length b > 3 \<and> length a > 3)"
    by blast
  show ?thesis
    unfolding skills_match_def using False \<open>b \<noteq> a\<close> loop sub len by simp
qed

text \<open>An instance: a table entry and its base name, in both orders.\<close>

theorem skills_match_symmetric_witness:
  "skills_match ''js'' ''javascript'' = skills_match ''javascript'' ''js''
   \<and> skills_match ''javascript'' ''js''"
proof -
  have "skills_match ''javascript'' ''js''"
    by (simp add: skills_match_def variations_def)
  then show ?thesis
    using skills_match_symmetric [of "''js''" "''javascript''"] by simp
qed

text \<open>
  Claim C8. Scoring is total on profiles and jobs with missing optional data: it never
  raises. The experience match divides the profile's total years by the years the job
  asks for, without a guard: for a profile whose only position starts a day after the
  clock reading (every other field at its default) and a job of experience level
  \<open>entry\<close> (every other field at its default) the total is -1/365.25, the job asks for
  zero years, and scoring raises ZeroDivisionError. Scoring also raises OverflowError for
  a minimum salary of 10^309 against a salary ceiling of 1, in the product of the minimum
  salary and 0.9.
\<close>

theorem match_job_raises:
  "match_job remdups day future_profile entry_job = Inl ZeroDivisionError
   \<and> match_job remdups 0 (example_profile\<lparr>min_salary := Some (10 ^ 309)\<rparr>)
        (example_job\<lparr>salary_max := Some 1\<rparr>) = Inl OverflowError"
proof -
  have z: "match_job remdups day future_profile entry_job = Inl ZeroDivisionError"
    by code_simp
  have big: "float_overflows (10 ^ 309)"
    by (simp add: float_overflows_def float_limit_def)
  have o: "match_job remdups 0 (example_profile\<lparr>min_salary := Some (10 ^ 309)\<rparr>)
        (example_job\<lparr>salary_max := Some 1\<rparr>) = Inl OverflowError"
    using big
    by (simp add: match_job_def calculate_salary_match_def calculate_experience_match_def
        Let_def truthy_def py_or_def int_of_def example_profile_def example_job_def
        UserProfile_init_def Job_init_def total_experience_years_def)
  show ?thesis using z o by blast
qed

text \<open>
  Claim C9. For a profile without skills and a job without required and preferred skills
  the skill match takes the description path, divides by one, and is 50. It is 50 when
  the description is empty; for any other description no skill is counted and the score
  is 0. As amended: the score is 50 for the empty description and 0 otherwise.
\<close>

theorem skill_match_no_skills:
  assumes "skills p = []" and "required_skills j = []" and "preferred_skills j = []"
  shows "calculate_skill_match p j = fuzzy_skill_match p (job_description j)
     \<and> len_or_1 (skills p) = 1
     \<and> calculate_skill_match p j = (if job_description j = [] then 50 else 0)"
  using assms
  by (simp add: calculate_skill_match_def fuzzy_skill_match_def len_or_1_def Let_def)

theorem skill_match_no_skills_witness:
  "calculate_skill_match example_profile example_job = 50
   \<and> calculate_skill_match example_profile
        (example_job\<lparr>job_description := ''Backend engineer''\<rparr>) = 0"
proof -
  have facts: "skills example_profile = []" "required_skills example_job = []"
    "preferred_skills example_job = []" "job_description example_job = []"
    by (simp_all add: example_profile_def example_job_def UserProfile_init_def Job_init_def)
  show ?thesis
    using skill_match_no_skills [of example_profile example_job]
      skill_match_no_skills [of example_profile
        "example_job\<lparr>job_description := ''Backend engineer''\<rparr>"]
      facts
    by simp
qed

theorem skill_match_no_skills_counterexample:
  "skills example_profile = []
   \<and> required_skills (example_job\<lparr>job_description := ''Backend engineer''\<rparr>) = []
   \<and> preferred_skills (example_job\<lparr>job_description := ''Backend engineer''\<rparr>) = []
   \<and> calculate_skill_match example_profile
        (example_job\<lparr>job_description := ''Backend engineer''\<rparr>) = 0
   \<and> calculate_skill_match example_profile
        (example_job\<lparr>job_description := ''Backend engineer''\<rparr>) \<noteq> 50"
  by code_simp

text \<open>
  Claim C10. For every profile and job list, a sort key outside overall,
  hiring_likelihood, compensation and skill_match raises no error and gives the result of
  the key overall. The call raises when the scoring of a job raises, whatever the key. As
  amended: the call returns what it returns for the key overall; an error of the call
  is the error of scoring one of the jobs; and when the scoring of each job returns, the
  call returns the pairs in descending order of their overall score.
\<close>

theorem rank_jobs_unknown_sort_key:
  assumes "sort_by \<notin> {''overall'', ''hiring_likelihood'', ''compensation'', ''skill_match''}"
  shows "rank_jobs it now p jobs sort_by = rank_jobs it now p jobs ''overall''
     \<and> (\<forall>e. rank_jobs it now p jobs sort_by = Inl e
            \<longrightarrow> (\<exists>job \<in> set jobs. match_job it now p job = Inl e))
     \<and> ((\<forall>job \<in> set jobs. \<exists>ms. match_job it now p job = Inr ms)
            \<longrightarrow> (\<exists>ranked. rank_jobs it now p jobs sort_by = Inr ranked
                  \<and> length ranked = length jobs
                  \<and> sorted_wrt (\<lambda>a b. overall_score (snd a) \<ge> overall_score (snd b)) ranked))"
proof -
  have k: "key_func sort_by = (\<lambda>x. overall_score (snd x))"
    by (rule key_func_unknown [OF assms])
  then have "key_func sort_by = key_func ''overall''"
    using key_func_known(1) by simp
  then have same: "rank_jobs it now p jobs sort_by = rank_jobs it now p jobs ''overall''"
    by (simp add: rank_jobs_def split: sum.splits)
  have err: "\<exists>job \<in> set jobs. match_job it now p job = Inl e"
    if "rank_jobs it now p jobs sort_by = Inl e" for e
    using that scored_jobs_error [of it now p jobs e]
    by (auto simp: rank_jobs_def split: sum.splits)
  have ret: "\<exists>ranked. rank_jobs it now p jobs sort_by = Inr ranked
        \<and> length ranked = length jobs
        \<and> sorted_wrt (\<lambda>a b. overall_score (snd a) \<ge> overall_score (snd b)) ranked"
    if ok: "\<forall>job \<in> set jobs. \<exists>ms. match_job it now p job = Inr ms"
  proof -
    from scored_jobs_returns [OF ok] obtain scored where
      sc: "scored_jobs it now p jobs = Inr scored" and
      all2: "list_all2 (\<lambda>job x. fst x = job \<and> match_job it now p job = Inr (snd x))
               jobs scored"
      by blast
    have r: "rank_jobs it now p jobs sort_by
        = Inr (sort_reverse (\<lambda>x. overall_score (snd x)) scored)"
      by (simp add: rank_jobs_def sc k)
    have l: "length (sort_reverse (\<lambda>x. overall_score (snd x)) scored) = length jobs"
      using all2 by (simp add: sort_reverse_def list_all2_lengthD)
    show ?thesis
      using r l sort_reverse_sorted [of "\<lambda>x. overall_score (snd x)" scored] by blast
  qed
  show ?thesis using same err ret by blast
qed

text \<open>Three jobs for the empty profile ranked with the key \<open>salary\<close>: the result is that
  of the key \<open>overall\<close>, the remote job (overall score 51.5) before the two others (47
  each).\<close>

theorem rank_jobs_unknown_sort_key_witness:
  "rank_jobs remdups 0 example_profile [job_onsite, job_remote, job_onsite_too] ''salary''
   = rank_jobs remdups 0 example_profile [job_onsite, job_remote, job_onsite_too] ''overall''
   \<and> map_sum id (map (\<lambda>x. (fst x, overall_score (snd x))))
       (rank_jobs remdups 0 example_profile [job_onsite, job_remote, job_onsite_too]
          ''salary'')
     = Inr [(job_remote, 51.5), (job_onsite, 47), (job_onsite_too, 47)]"
proof -
  have k: "''salary'' \<notin> {''overall'', ''hiring_likelihood'', ''compensation'', ''skill_match''}"
    by simp
  have run: "map_sum id (map (\<lambda>x. (fst x, overall_score (snd x))))
       (rank_jobs remdups 0 example_profile [job_onsite, job_remote, job_onsite_too]
          ''overall'')
     = Inr [(job_remote, 51.5), (job_onsite, 47), (job_onsite_too, 47)]"
    by code_simp
  show ?thesis
    using rank_jobs_unknown_sort_key [OF k, of remdups 0 example_profile
        "[job_onsite, job_remote, job_onsite_too]"] run
    by simp
qed

text \<open>Where the claim as stated fails: with the key \<open>salary\<close>, the profile whose only
  position starts a day after the clock reading, and a job that asks for zero years, the
  call raises.\<close>

theorem rank_jobs_unknown_sort_key_raises:
  "''salary'' \<notin> {''overall'', ''hiring_likelihood'', ''compensation'', ''skill_match''}
   \<and> rank_jobs remdups day future_profile [example_job, entry_job] ''salary''
     = Inl ZeroDivisionError"
  by code_simp

subsection \<open>Further properties\<close>

text \<open>
  When the profile's minimum salary is absent or not negative, every sub-score of a
  returned MatchScore lies in [0, 100] and the hiring likelihood in [5, 95].
\<close>

theorem sub_scores_in_range:
  assumes "match_job it now p j = Inr ms" and "0 \<le> int_of (min_salary p)"
  shows "0 \<le> skill_match_score ms \<and> skill_match_score ms \<le> 100
     \<and> 0 \<le> experience_match_score ms \<and> experience_match_score ms \<le> 100
     \<and> 0 \<le> education_match_score ms \<and> education_match_score ms \<le> 100
     \<and> 0 \<le> location_match_score ms \<and> location_match_score ms \<le> 100
     \<and> 0 \<le> salary_match_score ms \<and> salary_match_score ms \<le> 100
     \<and> 0 \<le> compensation_score ms \<and> compensation_score ms \<le> 100
     \<and> 0 \<le> overall_score ms \<and> overall_score ms \<le> 100
     \<and> 5 \<le> hiring_likelihood ms \<and> hiring_likelihood ms \<le> 95"
proof -
  note f = match_job_sub_scores [OF assms(1)]
  have sk: "0 \<le> skill_match_score ms \<and> skill_match_score ms \<le> 100"
    using calculate_skill_match_range [of p j] f(1) by simp
  have ex: "0 \<le> experience_match_score ms \<and> experience_match_score ms \<le> 100"
    using calculate_experience_match_range [OF f(2)] .
  have ed: "0 \<le> education_match_score ms \<and> education_match_score ms \<le> 100"
    using calculate_education_match_range [of p j] f(3) by simp
  have lo: "0 \<le> location_match_score ms \<and> location_match_score ms \<le> 100"
    using calculate_location_match_range [of p j] f(4) by simp
  have sa: "0 \<le> salary_match_score ms \<and> salary_match_score ms \<le> 100"
    using calculate_salary_match_range [OF assms(2) f(5)] .
  have co: "0 \<le> compensation_score ms \<and> compensation_score ms \<le> 100"
    using calculate_compensation_score_range [OF f(6)] by simp
  have "overall_score ms =
     skill_match_score ms * (35 / 100) + experience_match_score ms * (20 / 100) +
     education_match_score ms * (10 / 100) + location_match_score ms * (15 / 100) +
     salary_match_score ms * (20 / 100)"
    using match_job_overall [OF assms(1)]
    by (simp add: WEIGHTS_skill_match_def WEIGHTS_experience_match_def
        WEIGHTS_education_match_def WEIGHTS_location_match_def WEIGHTS_salary_match_def)
  then have ov: "0 \<le> overall_score ms \<and> overall_score ms \<le> 100"
    using sk ex ed lo sa by simp
  have hl: "5 \<le> hiring_likelihood ms \<and> hiring_likelihood ms \<le> 95"
    using match_job_hiring_likelihood [OF assms(1)] by simp
  show ?thesis
    using sk ex ed lo sa co ov hl by blast
qed

text \<open>A profile that asks for 100000 against a job that pays up to 50000: the salary
  match is 30.\<close>

theorem sub_scores_in_range_witness:
  "\<exists>ms. match_job remdups 0 (example_profile\<lparr>min_salary := Some 100000\<rparr>)
                       (example_job\<lparr>salary_max := Some 50000\<rparr>) = Inr ms
     \<and> salary_match_score ms = 30
     \<and> 0 \<le> salary_match_score ms \<and> salary_match_score ms \<le> 100
     \<and> 0 \<le> overall_score ms \<and> overall_score ms \<le> 100
     \<and> 5 \<le> hiring_likelihood ms \<and> hiring_likelihood ms \<le> 95"
proof -
  have run: "match_job remdups 0 (example_profile\<lparr>min_salary := Some 100000\<rparr>)
                         (example_job\<lparr>salary_max := Some 50000\<rparr>) =
      Inr \<lparr>overall_score = 39, skill_match_score = 50, experience_match_score = 0,
           education_match_score = 50, location_match_score = 70,
           salary_match_score = 30, culture_fit_score = 0, hiring_likelihood = 35.9,
           compensation_score = 30, matched_skills = [], missing_skills = [],
           bonus_skills = []\<rparr>"
    by code_simp
  have nonneg: "0 \<le> int_of (min_salary (example_profile\<lparr>min_salary := Some 100000\<rparr>))"
    by (simp add: int_of_def)
  show ?thesis
    using sub_scores_in_range [OF run nonneg] by (simp add: run)
qed

text \<open>
  The hiring likelihood of a returned MatchScore is 0.6 * overall + 0.25 * skill match +
  0.15 * experience match + demand bonus, clamped to [5, 95], where the demand bonus is
  min(10, 2 * the number of profile skills whose lowered name is in the in-demand list).
  No penalty for missing skills enters it.
\<close>

theorem hiring_likelihood_formula:
  assumes "match_job it now p j = Inr ms"
  shows "hiring_likelihood ms =
     max 5 (min 95 (0.6 * overall_score ms + 0.25 * skill_match_score ms +
       0.15 * experience_match_score ms +
       min 10 (2 * real (length (filter (\<lambda>s. lower (name s) \<in> set in_demand_skills)
                                        (skills p))))))"
  using match_job_hiring_likelihood [OF assms] by (simp add: mult.commute)

text \<open>A profile with the skills Python and Rust against a job that requires Go and
  Python: one required skill is missing, the demand bonus is 4, and the likelihood is
  0.6 * 41.75 + 0.25 * 35 + 4 = 37.8.\<close>

theorem hiring_likelihood_formula_witness:
  "\<exists>ms. match_job remdups 0
           (example_profile\<lparr>skills := [Skill_init ''Python'', Skill_init ''Rust'']\<rparr>)
           (example_job\<lparr>required_skills := [''Go'', ''Python'']\<rparr>) = Inr ms
     \<and> missing_skills ms = [''Go'']
     \<and> overall_score ms = 41.75 \<and> skill_match_score ms = 35
     \<and> experience_match_score ms = 0
     \<and> hiring_likelihood ms = 37.8
     \<and> hiring_likelihood ms =
         max 5 (min 95 (0.6 * overall_score ms + 0.25 * skill_match_score ms +
           0.15 * experience_match_score ms +
           min 10 (2 * real (length (filter (\<lambda>s. lower (name s) \<in> set in_demand_skills)
              (skills (example_profile\<lparr>skills :=
                 [Skill_init ''Python'', Skill_init ''Rust'']\<rparr>)))))))"
proof -
  have run: "match_job remdups 0
        (example_profile\<lparr>skills := [Skill_init ''Python'', Skill_init ''Rust'']\<rparr>)
        (example_job\<lparr>required_skills := [''Go'', ''Python'']\<rparr>) =
      Inr \<lparr>overall_score = 41.75, skill_match_score = 35, experience_match_score = 0,
           education_match_score = 50, location_match_score = 70,
           salary_match_score = 70, culture_fit_score = 0, hiring_likelihood = 37.8,
           compensation_score = 50, matched_skills = [''Python''],
           missing_skills = [''Go''], bonus_skills = [''Rust'']\<rparr>"
    by code_simp
  show ?thesis
    using hiring_likelihood_formula [OF run] by (simp add: run)
qed

text \<open>
  Scoring raises ZeroDivisionError exactly when the profile's total experience is
  negative and the job asks for zero years.
\<close>

theorem match_job_raises_iff:
  "match_job it now p j = Inl ZeroDivisionError
     \<longleftrightarrow> total_experience_years now p < 0 \<and> required_years j = 0"
  using match_job_zero_division [of it now p j]
    calculate_experience_match_error [of now p j ZeroDivisionError]
  by simp

text \<open>A position that starts a day after the clock reading, against a job of experience
  level \<open>entry\<close>.\<close>

theorem match_job_raises_iff_witness:
  "total_experience_years day future_profile = - 1 / 365.25
   \<and> required_years entry_job = 0
   \<and> match_job reversed_iteration day future_profile entry_job = Inl ZeroDivisionError"
proof -
  have t: "total_experience_years day future_profile = - 1 / 365.25"
    by code_simp
  have r: "required_years entry_job = 0"
    by code_simp
  show ?thesis
    using match_job_raises_iff [of reversed_iteration day future_profile entry_job] t r
    by simp
qed

text \<open>
  In a returned MatchScore the missing optional data give their defaults: no minimum
  salary on the profile (absent or zero) gives a salary match of 70; a minimum salary on
  the profile and no salary data on the job give 60; no education gives an education
  match of 50; and for a job that is not remote an empty job or profile location gives a
  location match of 70.
\<close>

theorem score_defaults:
  assumes "match_job it now p j = Inr ms"
  shows "(\<not> truthy (min_salary p) \<longrightarrow> salary_match_score ms = 70)
     \<and> (truthy (min_salary p) \<and> \<not> truthy (salary_min j) \<and> \<not> truthy (salary_max j)
          \<longrightarrow> salary_match_score ms = 60)
     \<and> (education p = [] \<longrightarrow> education_match_score ms = 50)
     \<and> (\<not> remote_option j \<and> (job_location j = [] \<or> profile_location p = [])
          \<longrightarrow> location_match_score ms = 70)"
proof -
  have sal: "calculate_salary_match p j = Inr (salary_match_score ms)"
    and edu: "education_match_score ms = calculate_education_match p j"
    and loc: "location_match_score ms = calculate_location_match p j"
    using match_job_sub_scores [OF assms] by simp_all
  have "\<not> truthy (min_salary p) \<longrightarrow> calculate_salary_match p j = Inr 70"
    by (simp add: calculate_salary_match_def)
  moreover have "truthy (min_salary p) \<and> \<not> truthy (salary_min j) \<and> \<not> truthy (salary_max j)
       \<longrightarrow> calculate_salary_match p j = Inr 60"
    by (simp add: calculate_salary_match_def)
  moreover have "education p = [] \<longrightarrow> calculate_education_match p j = 50"
    by (simp add: calculate_education_match_def)
  moreover have "\<not> remote_option j \<and> (job_location j = [] \<or> profile_location p = [])
       \<longrightarrow> calculate_location_match p j = 70"
    by (auto simp: calculate_location_match_def)
  ultimately show ?thesis
    using sal edu loc by auto
qed

text \<open>The empty profile against the empty job gives 70, 50 and 70; with a minimum salary
  of 100000 on the profile the salary match is 60.\<close>

theorem score_defaults_witness:
  "(\<exists>ms. match_job remdups 0 example_profile example_job = Inr ms
      \<and> salary_match_score ms = 70 \<and> education_match_score ms = 50
      \<and> location_match_score ms = 70)
   \<and> (\<exists>ms. match_job remdups 0 (example_profile\<lparr>min_salary := Some 100000\<rparr>) example_job
            = Inr ms
      \<and> salary_match_score ms = 60 \<and> education_match_score ms = 50
      \<and> location_match_score ms = 70)"
proof -
  have r1: "match_job remdups 0 example_profile example_job =
      Inr \<lparr>overall_score = 47, skill_match_score = 50, experience_match_score = 0,
           education_match_score = 50, location_match_score = 70,
           salary_match_score = 70, culture_fit_score = 0, hiring_likelihood = 40.7,
           compensation_score = 50, matched_skills = [], missing_skills = [],
           bonus_skills = []\<rparr>"
    by code_simp
  have r2: "match_job remdups 0 (example_profile\<lparr>min_salary := Some 100000\<rparr>) example_job =
      Inr \<lparr>overall_score = 45, skill_match_score = 50, experience_match_score = 0,
           education_match_score = 50, location_match_score = 70,
           salary_match_score = 60, culture_fit_score = 0, hiring_likelihood = 39.5,
           compensation_score = 50, matched_skills = [], missing_skills = [],
           bonus_skills = []\<rparr>"
    by code_simp
  show ?thesis
    using score_defaults [OF r1] score_defaults [OF r2] by (simp add: r1 r2)
qed

end
